theory Spec2Isabelle
  imports Main "HOL-Library.Finite_Map" "HOL-Library.Sublist" "HOL-Library.AList"
begin

section \<open>JavaScript values\<close>

text \<open>
  Payloads are JSON values as the remote service sends them. An object is a finite map
  from property names to values (the order of the properties is never observed by the
  code modelled here). Numbers are the integers: status codes, error codes and channel
  types; fractional numbers and NaN are outside the model.
\<close>

datatype jsval =
    JUndefined
  | JNull
  | JBool bool
  | JNum int
  | JStr string
  | JArr "jsval list"
  | JObj "(string, jsval) fmap"

text \<open>
  What a throw carries: a \<open>TypeError\<close> of the runtime (a property read on
  \<open>undefined\<close> or \<open>null\<close>, a call of something that is not a function, \<open>in\<close>
  on a primitive), \<open>new Error(message)\<close>, and the \<open>MalformedPayload\<close> of the
  specification's error taxonomy.
\<close>

datatype error = TypeError | Error string | MalformedPayload

text \<open>\<open>x ?? d\<close> takes \<open>d\<close> exactly when \<open>x\<close> is \<open>undefined\<close> or \<open>null\<close>.\<close>

fun nullish :: "jsval \<Rightarrow> bool" where
  "nullish JUndefined = True"
| "nullish JNull = True"
| "nullish _ = False"

text \<open>The truthiness that \<open>!x\<close>, \<open>x || d\<close>, \<open>x && y\<close> and \<open>x ? a : b\<close> test.\<close>

fun truthy :: "jsval \<Rightarrow> bool" where
  "truthy JUndefined = False"
| "truthy JNull = False"
| "truthy (JBool b) = b"
| "truthy (JNum n) = (n \<noteq> 0)"
| "truthy (JStr s) = (s \<noteq> [])"
| "truthy (JArr xs) = True"
| "truthy (JObj m) = True"

text \<open>\<open>typeof x === 'object'\<close>: objects, arrays and \<open>null\<close>.\<close>

fun typeof_object :: "jsval \<Rightarrow> bool" where
  "typeof_object JNull = True"
| "typeof_object (JArr xs) = True"
| "typeof_object (JObj m) = True"
| "typeof_object _ = False"

text \<open>Reading property \<open>k\<close> of an object: \<open>undefined\<close> when the object has no such property.\<close>

definition obj_get :: "(string, jsval) fmap \<Rightarrow> string \<Rightarrow> jsval" where
  "obj_get m k = (case fmlookup m k of None \<Rightarrow> JUndefined | Some v \<Rightarrow> v)"

text \<open>
  \<open>x.k\<close> for any value \<open>x\<close>: a TypeError on \<open>undefined\<close> and \<open>null\<close>. The
  properties read in this development (\<open>id\<close>, \<open>name\<close>, \<open>type\<close>, \<open>code\<close>,
  \<open>message\<close>) are no built-in property of a string, a number, a boolean or an array,
  so the read gives \<open>undefined\<close> there.
\<close>

fun get_prop :: "jsval \<Rightarrow> string \<Rightarrow> error + jsval" where
  "get_prop JUndefined k = Inl TypeError"
| "get_prop JNull k = Inl TypeError"
| "get_prop (JObj m) k = Inr (obj_get m k)"
| "get_prop _ k = Inr JUndefined"

subsection \<open>Conversion to a string, as a template literal does it\<close>

text \<open>
  The decimal digits of a natural number and of an integer. That is how JavaScript
  writes an array index and a safe integer (one of magnitude below \<open>2 ^ 53\<close>).
\<close>

fun show_nat :: "nat \<Rightarrow> string" where
  "show_nat n =
     (if n < 10 then [''0123456789'' ! n]
      else show_nat (n div 10) @ [''0123456789'' ! (n mod 10)])"

declare show_nat.simps [simp del]

definition show_int :: "int \<Rightarrow> string" where
  "show_int i = (if i < 0 then CHR ''-'' # show_nat (nat (- i)) else show_nat (nat i))"

fun join_comma :: "string list \<Rightarrow> string" where
  "join_comma [] = []"
| "join_comma [s] = s"
| "join_comma (s # t # ss) = s @ '','' @ join_comma (t # ss)"

text \<open>
  \<open>`${x}`\<close>, the conversion of a value to a string. How a number is written
  (\<open>Number.prototype.toString\<close>, which goes to exponent form for large numbers) is
  the parameter \<open>num\<close>. An array is its elements joined by commas, with \<open>undefined\<close>
  and \<open>null\<close> elements written as nothing. An object is \<open>[object Object]\<close>, unless
  it has a property \<open>toString\<close> of its own: the value of that property in a payload is
  no function, the conversion finds no primitive and throws a TypeError.
\<close>

fun js_toString :: "(int \<Rightarrow> string) \<Rightarrow> jsval \<Rightarrow> error + string"
  and js_toStrings :: "(int \<Rightarrow> string) \<Rightarrow> jsval list \<Rightarrow> error + string list" where
  "js_toString num JUndefined = Inr ''undefined''"
| "js_toString num JNull = Inr ''null''"
| "js_toString num (JBool b) = Inr (if b then ''true'' else ''false'')"
| "js_toString num (JNum n) = Inr (num n)"
| "js_toString num (JStr s) = Inr s"
| "js_toString num (JArr xs) =
     (case js_toStrings num xs of Inl e \<Rightarrow> Inl e | Inr ss \<Rightarrow> Inr (join_comma ss))"
| "js_toString num (JObj m) =
     (if ''toString'' |\<in>| fmdom m then Inl TypeError else Inr ''[object Object]'')"
| "js_toStrings num [] = Inr []"
| "js_toStrings num (x # xs) =
     (case (if nullish x then Inr [] else js_toString num x) of
        Inl e \<Rightarrow> Inl e
      | Inr s \<Rightarrow> (case js_toStrings num xs of Inl e \<Rightarrow> Inl e | Inr ss \<Rightarrow> Inr (s # ss)))"

subsection \<open>Object spread\<close>

text \<open>
  The own enumerable properties that \<open>{...x}\<close> copies: those of an object; the indexed
  elements of an array and the indexed characters of a string; none of \<open>undefined\<close>,
  \<open>null\<close>, a number or a boolean.
\<close>

fun own_props :: "jsval \<Rightarrow> (string, jsval) fmap" where
  "own_props (JObj m) = m"
| "own_props (JArr xs) = fmap_of_list (zip (map show_nat [0..<length xs]) xs)"
| "own_props (JStr s) = fmap_of_list (zip (map show_nat [0..<length s]) (map (\<lambda>c. JStr [c]) s))"
| "own_props _ = fmempty"

section \<open>Message (structures/Message.ts)\<close>

text \<open>
  A Message keeps the raw payload it was built from in its private field \<open>data\<close>, of the
  declared type APIMessage: an object.
\<close>

record message =
  data :: "(string, jsval) fmap"

text \<open>
  \<^verbatim>\<open>private parseData(data: APIMessage) {
    if (!data) return;
    this.data = { ...this.data, ...data };
  }\<close>
\<close>

definition Message_parseData :: "jsval \<Rightarrow> message \<Rightarrow> message" where
  "Message_parseData d m =
     (if \<not> truthy d then m
      else m\<lparr>data := data m ++\<^sub>f own_props d\<rparr>)"

text \<open>\<open>get id() { return this.data.id; }\<close>\<close>

definition Message_id :: "message \<Rightarrow> jsval" where
  "Message_id m = obj_get (data m) ''id''"

section \<open>Channel (the second file of structures/Message.ts)\<close>

text \<open>
  Guild is a class of the repository that is not under src/. The code modelled here only
  reads a guild's \<open>id\<close>.
\<close>

record guild =
  guild_id :: jsval

text \<open>\<open>new Date(timestamp)\<close>\<close>

datatype date = Date jsval

text \<open>
  The fields of a Channel. Each is declared without an initialiser
  (\<open>id!: string\<close>, ...), so it is \<open>undefined\<close> until \<open>parseData\<close> assigns it:
  \<open>JUndefined\<close>, or \<open>None\<close> for the date, the type name and the guild.
\<close>

record channel =
  createdTimestamp :: jsval
  createdAt :: "date option"
  channel_id :: jsval
  name :: jsval
  guild :: "guild option"
  channel_type :: "string option"

definition new_channel :: channel where
  "new_channel =
     \<lparr>createdTimestamp = JUndefined, createdAt = None, channel_id = JUndefined,
      name = JUndefined, guild = None, channel_type = None\<rparr>"

text \<open>
  \<open>'k' in x\<close>: a TypeError unless \<open>x\<close> is an object. An array is an object without
  the properties \<open>id\<close>, \<open>name\<close> and \<open>type\<close> that parseData asks for.
\<close>

fun in_object :: "jsval \<Rightarrow> bool" where
  "in_object (JObj m) = True"
| "in_object (JArr xs) = True"
| "in_object _ = False"

fun js_in :: "string \<Rightarrow> jsval \<Rightarrow> bool" where
  "js_in k (JObj m) = (k |\<in>| fmdom m)"
| "js_in k _ = False"

fun js_get :: "jsval \<Rightarrow> string \<Rightarrow> jsval" where
  "js_get (JObj m) k = obj_get m k"
| "js_get _ k = JUndefined"

text \<open>
  \<^verbatim>\<open>override parseData(data: any) {
    if (typeof data === 'undefined') return null;
    if ('id' in data) { this.id = data.id; }
    this.createdTimestamp = Snowflake.deconstruct(this.id);
    this.createdAt = new Date(this.createdTimestamp);
    if ('name' in data) { this.name = data.name; }
    this.type = RawChannelTypes[data.type] ?? 'UNKNOWN';
  }\<close>
  Two parts of the repository that the method uses are not under src/ and are
  parameters: the table \<open>RawChannelTypes\<close> (\<open>None\<close> where it has no entry, which reads
  as \<open>undefined\<close>) and the function \<open>Snowflake.deconstruct\<close>, which may throw.
  The result is what the call returns or throws, with the channel as the call leaves it:
  a throw in the middle leaves the assignments made before it.
\<close>

definition Channel_parseData ::
  "(jsval \<Rightarrow> string option) \<Rightarrow> (jsval \<Rightarrow> error + jsval) \<Rightarrow> jsval \<Rightarrow> channel
     \<Rightarrow> (error + jsval) \<times> channel" where
  "Channel_parseData RawChannelTypes deconstruct d ch =
     (case d of
        JUndefined \<Rightarrow> (Inr JNull, ch)
      | _ \<Rightarrow>
        (if \<not> in_object d then (Inl TypeError, ch)
         else
           (let ch1 = (if js_in ''id'' d then ch\<lparr>channel_id := js_get d ''id''\<rparr> else ch)
            in (case deconstruct (channel_id ch1) of
                  Inl e \<Rightarrow> (Inl e, ch1)
                | Inr ts \<Rightarrow>
                   (let ch2 = ch1\<lparr>createdTimestamp := ts, createdAt := Some (Date ts)\<rparr>;
                        ch3 = (if js_in ''name'' d then ch2\<lparr>name := js_get d ''name''\<rparr>
                               else ch2)
                    in (Inr JUndefined,
                        ch3\<lparr>channel_type :=
                              Some (case RawChannelTypes (js_get d ''type'') of
                                      None \<Rightarrow> ''UNKNOWN''
                                    | Some t \<Rightarrow> t)\<rparr>))))))"

section \<open>The client: manager caches and the requests it sends\<close>

text \<open>
  Modelled from the spec: the Bounded Cache of section 4.1, the store behind
  \<open>manager.cache\<close>. The cache class of the repository (utils/LimitedMap, exported by
  index.ts) is not under src/. The entries stand in insertion order, oldest first;
  \<open>max_size\<close> is the maximum entry count N, and 0 is unbounded.
\<close>

record 'v cache =
  entries :: "(jsval \<times> 'v) list"
  max_size :: nat

text \<open>
  Modelled from the spec: \<open>get(key) -> value | absent\<close> of the Bounded Cache
  (LimitedMap is not under src/), a read that changes nothing.
\<close>

definition cache_get :: "'v cache \<Rightarrow> jsval \<Rightarrow> 'v option" where
  "cache_get c k = map_of (entries c) k"


text \<open>
  Modelled from the spec: the User entity, whose class is not under src/. An entity
  holds the last-known raw payload (section 3).
\<close>

record user =
  user_data :: "(string, jsval) fmap"




text \<open>
  A request handed to the network collaborator (\<open>client.requester.make\<close>):
  endpoint, method, body and headers.
\<close>

record request =
  req_endpoint :: string
  req_method :: string
  req_body :: string
  req_headers :: "(string \<times> jsval) list"

text \<open>
  What the code reaches through \<open>this.client\<close>: the caches of the three managers, and
  the requests sent so far, oldest first.
\<close>

record client =
  users :: "user cache"
  guilds :: "guild cache"
  channels :: "channel cache"
  requests :: "request list"

text \<open>
  A method that works on the client takes the client's state and returns what it
  returned or threw, with the state it left.
\<close>

type_synonym 'a action = "client \<Rightarrow> (error + 'a) \<times> client"

definition yield :: "'a \<Rightarrow> 'a action" where
  "yield x c = (Inr x, c)"

definition raise :: "error \<Rightarrow> 'a action" where
  "raise e c = (Inl e, c)"

definition look :: "(client \<Rightarrow> 'a) \<Rightarrow> 'a action" where
  "look f c = (Inr (f c), c)"

definition and_then :: "'a action \<Rightarrow> ('a \<Rightarrow> 'b action) \<Rightarrow> 'b action" where
  "and_then f g c = (case f c of (Inl e, c') \<Rightarrow> (Inl e, c') | (Inr x, c') \<Rightarrow> g x c')"

section \<open>Message: construction and accessors\<close>

text \<open>
  \<^verbatim>\<open>constructor(client: Client, data: APIMessage) { super(client); this.data = data; }\<close>
  The base class BaseStructure is not under src/; it keeps the reference to the client,
  which the model passes to every method that uses it.
\<close>

definition Message_constructor :: "(string, jsval) fmap \<Rightarrow> message action" where
  "Message_constructor d = yield \<lparr>data = d\<rparr>"

text \<open>\<open>get content() { return this.data.content || ''; }\<close>\<close>

definition Message_content :: "message \<Rightarrow> jsval" where
  "Message_content m =
     (if truthy (obj_get (data m) ''content'') then obj_get (data m) ''content'' else JStr [])"

text \<open>\<open>get pinned() { return this.data.pinned ?? false; }\<close>\<close>

definition Message_pinned :: "message \<Rightarrow> jsval" where
  "Message_pinned m =
     (if nullish (obj_get (data m) ''pinned'') then JBool False else obj_get (data m) ''pinned'')"

text \<open>\<open>get tts() { return this.data.tts ?? false; }\<close>\<close>

definition Message_tts :: "message \<Rightarrow> jsval" where
  "Message_tts m =
     (if nullish (obj_get (data m) ''tts'') then JBool False else obj_get (data m) ''tts'')"

text \<open>\<open>get nonce() { return this.data.nonce; }\<close>\<close>

definition Message_nonce :: "message \<Rightarrow> jsval" where
  "Message_nonce m = obj_get (data m) ''nonce''"

text \<open>
  \<open>x.map(f)\<close>: the mapped array when \<open>x\<close> is an array, stopping at the first element
  on which \<open>f\<close> throws; a TypeError when \<open>x\<close> is anything else (a read on
  \<open>undefined\<close> or \<open>null\<close>, or a call of the \<open>undefined\<close> that \<open>x.map\<close> is).
\<close>

fun mapE :: "('a \<Rightarrow> error + 'b) \<Rightarrow> 'a list \<Rightarrow> error + 'b list" where
  "mapE f [] = Inr []"
| "mapE f (x # xs) =
     (case f x of
        Inl e \<Rightarrow> Inl e
      | Inr y \<Rightarrow> (case mapE f xs of Inl e \<Rightarrow> Inl e | Inr ys \<Rightarrow> Inr (y # ys)))"

fun js_map :: "(jsval \<Rightarrow> error + 'b) \<Rightarrow> jsval \<Rightarrow> error + 'b list" where
  "js_map f (JArr xs) = mapE f xs"
| "js_map f _ = Inl TypeError"

text \<open>
  \<^verbatim>\<open>get components() {
    return this.data.components?.map(c => Parsers.messageComponents(c)) ?? [];
  }\<close>
  \<open>Parsers.messageComponents\<close> is not under src/ and is a parameter.
\<close>

definition Message_components :: "(jsval \<Rightarrow> error + 'c) \<Rightarrow> message \<Rightarrow> error + 'c list" where
  "Message_components messageComponents m =
     (if nullish (obj_get (data m) ''components'') then Inr []
      else js_map messageComponents (obj_get (data m) ''components''))"

text \<open>
  \<^verbatim>\<open>get embeds() { return this.data.embeds.map(e => new EmbedBuilder(e)); }\<close>
  The constructor of \<open>EmbedBuilder\<close> is not under src/ and is a parameter.
\<close>

definition Message_embeds :: "(jsval \<Rightarrow> error + 'e) \<Rightarrow> message \<Rightarrow> error + 'e list" where
  "Message_embeds EmbedBuilder m = js_map EmbedBuilder (obj_get (data m) ''embeds'')"

text \<open>\<open>get channelId() { return this.data.channel_id; }\<close>\<close>

definition Message_channelId :: "message \<Rightarrow> jsval" where
  "Message_channelId m = obj_get (data m) ''channel_id''"

text \<open>
  \<^verbatim>\<open>get channel() {
    return this.channelId ? this.client.channels.cache.get(this.channelId) : undefined;
  }\<close>
\<close>

definition Message_channel :: "message \<Rightarrow> channel option action" where
  "Message_channel m =
     (if truthy (Message_channelId m)
      then look (\<lambda>c. cache_get (channels c) (Message_channelId m))
      else yield None)"

text \<open>
  \<^verbatim>\<open>get guildId() { return this.data.guild_id ?? this.channel?.guild?.id; }\<close>
\<close>

definition Message_guildId :: "message \<Rightarrow> jsval action" where
  "Message_guildId m =
     (if \<not> nullish (obj_get (data m) ''guild_id'') then yield (obj_get (data m) ''guild_id'')
      else and_then (Message_channel m)
             (\<lambda>ch. yield (case ch of
                             None \<Rightarrow> JUndefined
                           | Some ch' \<Rightarrow>
                               (case guild ch' of None \<Rightarrow> JUndefined | Some g \<Rightarrow> guild_id g))))"

text \<open>
  \<^verbatim>\<open>get guild() {
    return this.guildId
      ? this.client.guilds.cache.get(this.guildId) ?? this.channel?.guild
      : undefined;
  }\<close>
\<close>

definition Message_guild :: "message \<Rightarrow> guild option action" where
  "Message_guild m =
     and_then (Message_guildId m)
       (\<lambda>gid. if truthy gid
              then and_then (Message_guildId m)
                     (\<lambda>gid'. and_then (look (\<lambda>c. cache_get (guilds c) gid'))
                        (\<lambda>g. case g of
                                Some g' \<Rightarrow> yield (Some g')
                              | None \<Rightarrow>
                                  and_then (Message_channel m)
                                    (\<lambda>ch. yield (case ch of
                                                    None \<Rightarrow> None
                                                  | Some ch' \<Rightarrow> guild ch'))))
              else yield None)"


section \<open>Channel: construction and delete\<close>

text \<open>
  \<^verbatim>\<open>constructor(client: Client, data: any, guild?: Guild) {
    super(client);
    this.guild = guild;
    this.parseData(data);
  }\<close>
  The base class DataManager is not under src/. A throw of \<open>parseData\<close> leaves the
  constructor, and no channel is returned.
\<close>

definition Channel_constructor ::
  "(jsval \<Rightarrow> string option) \<Rightarrow> (jsval \<Rightarrow> error + jsval) \<Rightarrow> jsval \<Rightarrow> guild option
     \<Rightarrow> channel action" where
  "Channel_constructor RawChannelTypes deconstruct d g c =
     (case Channel_parseData RawChannelTypes deconstruct d (new_channel\<lparr>guild := g\<rparr>) of
        (Inl e, ch) \<Rightarrow> (Inl e, c)
      | (Inr r, ch) \<Rightarrow> (Inr ch, c))"

text \<open>
  \<^verbatim>\<open>async delete(reason?: string) {
    const data = await this.client.requester.make(`channels/${this.id}`, 'DELETE', '',
      { 'X-Audit-Log-Reason': reason });
    return new Channel(this.client, data, this.guild);
  }\<close>
  The requester is not under src/: \<open>requester_make\<close> is a parameter that gives, for a request,
  the payload the promise resolves to or the error it rejects with. The call is one step
  of the client: what other handlers do while the request is pending is outside. The
  template literal converts \<open>this.id\<close> to a string first; a throw there rejects before
  any request is made.
\<close>

definition Channel_delete ::
  "(jsval \<Rightarrow> string option) \<Rightarrow> (jsval \<Rightarrow> error + jsval) \<Rightarrow> (request \<Rightarrow> error + jsval)
     \<Rightarrow> (int \<Rightarrow> string) \<Rightarrow> jsval \<Rightarrow> channel \<Rightarrow> channel action" where
  "Channel_delete RawChannelTypes deconstruct requester_make num reason ch =
     (case js_toString num (channel_id ch) of
        Inl e \<Rightarrow> raise e
      | Inr s \<Rightarrow>
          and_then
            (\<lambda>c. (requester_make
                    \<lparr>req_endpoint = ''channels/'' @ s,
                     req_method = ''DELETE'', req_body = [],
                     req_headers = [(''X-Audit-Log-Reason'', reason)]\<rparr>,
                  c\<lparr>requests := requests c @
                       [\<lparr>req_endpoint = ''channels/'' @ s,
                         req_method = ''DELETE'', req_body = [],
                         req_headers = [(''X-Audit-Log-Reason'', reason)]\<rparr>]\<rparr>))
            (\<lambda>d. Channel_constructor RawChannelTypes deconstruct d (guild ch)))"

section \<open>Rejections of the remote service (src/unnamed/part_000)\<close>

text \<open>
  \<^verbatim>\<open>function verifyForStatusCode(endpoint: string, data: BodyInit, code: number, method: string) {
    switch (code) {
      case 400: throw new Error(`DiscordAPIError: Bad Request (400)\nEndpoint: ${endpoint}\nMethod: ${method}\nData: ${data ?? 'empty'}`);
      case 401: ... Not Authorized (401) ...
      case 403: ... Missing Permissions (403) ...
      case 404: ... Not Found (404) ...
    }
  }\<close>
\<close>

text \<open>
  The end that the message templates of both functions share, for the rendered request
  body:
  \<^verbatim>\<open>\nEndpoint: ${endpoint}\nMethod: ${method}\nData: ${...}\<close>
\<close>

definition diagnostics :: "string \<Rightarrow> string \<Rightarrow> string \<Rightarrow> string" where
  "diagnostics endpoint meth rendered =
     [CHR 0x0A] @ ''Endpoint: '' @ endpoint @ [CHR 0x0A] @ ''Method: '' @ meth @
     [CHR 0x0A] @ ''Data: '' @ rendered"

definition verifyForStatusCode ::
  "(int \<Rightarrow> string) \<Rightarrow> string \<Rightarrow> jsval \<Rightarrow> int \<Rightarrow> string \<Rightarrow> error + unit" where
  "verifyForStatusCode num endpoint d code meth =
     (if code = 400 then
        (case js_toString num (if nullish d then JStr ''empty'' else d) of
           Inl e \<Rightarrow> Inl e
         | Inr rendered \<Rightarrow>
             Inl (Error (''DiscordAPIError: Bad Request (400)'' @
               diagnostics endpoint meth rendered)))
      else if code = 401 then
        (case js_toString num (if nullish d then JStr ''empty'' else d) of
           Inl e \<Rightarrow> Inl e
         | Inr rendered \<Rightarrow>
             Inl (Error (''DiscordAPIError: Not Authorized (401)'' @
               diagnostics endpoint meth rendered)))
      else if code = 403 then
        (case js_toString num (if nullish d then JStr ''empty'' else d) of
           Inl e \<Rightarrow> Inl e
         | Inr rendered \<Rightarrow>
             Inl (Error (''DiscordAPIError: Missing Permissions (403)'' @
               diagnostics endpoint meth rendered)))
      else if code = 404 then
        (case js_toString num (if nullish d then JStr ''empty'' else d) of
           Inl e \<Rightarrow> Inl e
         | Inr rendered \<Rightarrow>
             Inl (Error (''DiscordAPIError: Not Found (404)'' @
               diagnostics endpoint meth rendered)))
      else Inr ())"

text \<open>
  \<^verbatim>\<open>function verifyForJSONStatusCode(jsonResponse: any, endpoint: string, data: BodyInit, method: string) {
    if (jsonResponse.code && jsonResponse.message) {
      throw new Error(`DiscordAPIError: ${jsonResponse.message} (${jsonResponse.code})\nEndpoint: ${endpoint}\nMethod: ${method}\nData: ${typeof data === 'object' ? JSON.stringify(data) : data ?? 'empty'}`);
    }
  }\<close>
  \<open>JSON.stringify\<close> is a parameter. A body that is \<open>null\<close> has the type
  \<open>object\<close> and goes through it. Each \<open>${...}\<close> of the template is converted to a
  string in turn, and a conversion that throws leaves the function with its TypeError.
\<close>

definition verifyForJSONStatusCode ::
  "(int \<Rightarrow> string) \<Rightarrow> (jsval \<Rightarrow> string) \<Rightarrow> jsval \<Rightarrow> string \<Rightarrow> jsval \<Rightarrow> string
     \<Rightarrow> error + unit" where
  "verifyForJSONStatusCode num JSON_stringify jsonResponse endpoint d meth =
     (case get_prop jsonResponse ''code'' of
        Inl e \<Rightarrow> Inl e
      | Inr code \<Rightarrow>
          if \<not> truthy code then Inr ()
          else
            (case get_prop jsonResponse ''message'' of
               Inl e \<Rightarrow> Inl e
             | Inr msg \<Rightarrow>
                 if \<not> truthy msg then Inr ()
                 else
                   (case js_toString num msg of
                      Inl e \<Rightarrow> Inl e
                    | Inr msg_text \<Rightarrow>
                        (case js_toString num code of
                           Inl e \<Rightarrow> Inl e
                         | Inr code_text \<Rightarrow>
                             (case (if typeof_object d then Inr (JSON_stringify d)
                                    else js_toString num
                                           (if nullish d then JStr ''empty'' else d)) of
                                Inl e \<Rightarrow> Inl e
                              | Inr rendered \<Rightarrow>
                                  Inl (Error (''DiscordAPIError: '' @ msg_text @ '' ('' @
                                    code_text @ '')'' @
                                    diagnostics endpoint meth rendered)))))))"

section \<open>Sequences of updates\<close>

text \<open>A sequence of updates applied to one entity, each to the state the last one left.\<close>

definition Message_updates :: "jsval list \<Rightarrow> message \<Rightarrow> message" where
  "Message_updates ds m = fold Message_parseData ds m"

definition Channel_updates ::
  "(jsval \<Rightarrow> string option) \<Rightarrow> (jsval \<Rightarrow> error + jsval) \<Rightarrow> jsval list \<Rightarrow> channel
     \<Rightarrow> channel" where
  "Channel_updates RawChannelTypes deconstruct ds ch =
     fold (\<lambda>d c. snd (Channel_parseData RawChannelTypes deconstruct d c)) ds ch"

section \<open>Partial merge\<close>

text \<open>
  C1. Partial-merge law for the update of an entity: a field that the payload does not
  have keeps the value the entity held, and a field that the payload has takes the
  payload's value, so an entity holding A = x and B = y, updated with a payload of the
  single field A = x2, holds A = x2 and B = y. \<open>Message.parseData\<close> does that for
  every field. \<open>Channel.parseData\<close> does it for id and name (and leaves the guild), and
  breaks it for the type: a payload without \<open>type\<close> sets the type to \<open>UNKNOWN\<close>
  where the table has no entry for \<open>undefined\<close>, because the type is assigned without
  asking whether the payload has one.
\<close>

theorem partial_merge_holds_except_channel_type:
  "(k |\<notin>| fmdom p \<longrightarrow>
      fmlookup (data (Message_parseData (JObj p) m)) k = fmlookup (data m) k) \<and>
   (k |\<in>| fmdom p \<longrightarrow>
      fmlookup (data (Message_parseData (JObj p) m)) k = fmlookup p k) \<and>
   (fmlookup (data m) A = Some x \<and> fmlookup (data m) B = Some y \<and> A \<noteq> B \<longrightarrow>
      fmlookup (data (Message_parseData (JObj (fmupd A x2 fmempty)) m)) A = Some x2 \<and>
      fmlookup (data (Message_parseData (JObj (fmupd A x2 fmempty)) m)) B = Some y) \<and>
   (deconstruct (if ''id'' |\<in>| fmdom p then obj_get p ''id'' else channel_id ch) = Inr ts \<longrightarrow>
      channel_id (snd (Channel_parseData RawChannelTypes deconstruct (JObj p) ch)) =
        (if ''id'' |\<in>| fmdom p then obj_get p ''id'' else channel_id ch) \<and>
      name (snd (Channel_parseData RawChannelTypes deconstruct (JObj p) ch)) =
        (if ''name'' |\<in>| fmdom p then obj_get p ''name'' else name ch) \<and>
      guild (snd (Channel_parseData RawChannelTypes deconstruct (JObj p) ch)) = guild ch \<and>
      (''type'' |\<notin>| fmdom p \<and> RawChannelTypes JUndefined = None \<longrightarrow>
         channel_type (snd (Channel_parseData RawChannelTypes deconstruct (JObj p) ch)) =
           Some ''UNKNOWN''))"
  by (auto simp: Message_parseData_def Channel_parseData_def Let_def obj_get_def)

theorem partial_merge_holds_except_channel_type_witness:
  "fmlookup (data (Message_parseData (JObj (fmupd ''content'' (JStr ''edited'') fmempty))
      \<lparr>data = fmap_of_list [(''id'', JStr ''1''), (''content'', JStr ''hello''),
                             (''pinned'', JBool True)]\<rparr>)) ''content'' = Some (JStr ''edited'') \<and>
   fmlookup (data (Message_parseData (JObj (fmupd ''content'' (JStr ''edited'') fmempty))
      \<lparr>data = fmap_of_list [(''id'', JStr ''1''), (''content'', JStr ''hello''),
                             (''pinned'', JBool True)]\<rparr>)) ''pinned'' = Some (JBool True) \<and>
   name (snd (Channel_parseData
      (\<lambda>v. if v = JNum 0 then Some ''GUILD_TEXT'' else None) (\<lambda>v. Inr (JNum 0))
      (JObj (fmupd ''name'' (JStr ''general-renamed'') fmempty))
      \<lparr>createdTimestamp = JNum 0, createdAt = Some (Date (JNum 0)), channel_id = JStr ''10'',
       name = JStr ''general'', guild = None, channel_type = Some ''GUILD_TEXT''\<rparr>))
     = JStr ''general-renamed'' \<and>
   channel_type (snd (Channel_parseData
      (\<lambda>v. if v = JNum 0 then Some ''GUILD_TEXT'' else None) (\<lambda>v. Inr (JNum 0))
      (JObj (fmupd ''name'' (JStr ''general-renamed'') fmempty))
      \<lparr>createdTimestamp = JNum 0, createdAt = Some (Date (JNum 0)), channel_id = JStr ''10'',
       name = JStr ''general'', guild = None, channel_type = Some ''GUILD_TEXT''\<rparr>))
     = Some ''UNKNOWN''"
  using partial_merge_holds_except_channel_type
    [where k = "''content''" and p = "fmempty"
       and m = "\<lparr>data = fmap_of_list [(''id'', JStr ''1''), (''content'', JStr ''hello''),
                               (''pinned'', JBool True)]\<rparr>"
       and A = "''content''" and x = "JStr ''hello''" and B = "''pinned''"
       and y = "JBool True" and ?x2.0 = "JStr ''edited''"]
    partial_merge_holds_except_channel_type
    [where p = "fmupd ''name'' (JStr ''general-renamed'') fmempty"
       and RawChannelTypes = "\<lambda>v. if v = JNum 0 then Some ''GUILD_TEXT'' else None"
       and deconstruct = "\<lambda>v. Inr (JNum 0)" and ts = "JNum 0"
       and ch = "\<lparr>createdTimestamp = JNum 0, createdAt = Some (Date (JNum 0)),
                  channel_id = JStr ''10'', name = JStr ''general'', guild = None,
                  channel_type = Some ''GUILD_TEXT''\<rparr>"]
  by (simp add: fmlookup_of_list obj_get_def)

text \<open>
  C2. The channel scenario. A channel takes the payload
  \<open>{id: "10", name: "general", type: 0}\<close> and then the payload
  \<open>{id: "10", name: "general-renamed"}\<close>. Its id is "10" and its name is
  "general-renamed", as the scenario says. Its type is not retained: for a table that
  names type 0 and has no entry for \<open>undefined\<close>, the type is that name after the first
  payload and \<open>UNKNOWN\<close> after the second, because \<open>parseData\<close> assigns the type
  without asking whether the payload has one, as it asks for id and name.
\<close>

theorem Channel_reupsert_resets_type:
  assumes "RawChannelTypes (JNum 0) = Some t"
    and "RawChannelTypes JUndefined = None"
    and "deconstruct (JStr ''10'') = Inr ts"
  shows
    "channel_id (snd (Channel_parseData RawChannelTypes deconstruct
        (JObj (fmap_of_list [(''id'', JStr ''10''), (''name'', JStr ''general-renamed'')]))
        (snd (Channel_parseData RawChannelTypes deconstruct
           (JObj (fmap_of_list [(''id'', JStr ''10''), (''name'', JStr ''general''),
                                (''type'', JNum 0)])) ch)))) = JStr ''10'' \<and>
     name (snd (Channel_parseData RawChannelTypes deconstruct
        (JObj (fmap_of_list [(''id'', JStr ''10''), (''name'', JStr ''general-renamed'')]))
        (snd (Channel_parseData RawChannelTypes deconstruct
           (JObj (fmap_of_list [(''id'', JStr ''10''), (''name'', JStr ''general''),
                                (''type'', JNum 0)])) ch)))) = JStr ''general-renamed'' \<and>
     channel_type (snd (Channel_parseData RawChannelTypes deconstruct
           (JObj (fmap_of_list [(''id'', JStr ''10''), (''name'', JStr ''general''),
                                (''type'', JNum 0)])) ch)) = Some t \<and>
     channel_type (snd (Channel_parseData RawChannelTypes deconstruct
        (JObj (fmap_of_list [(''id'', JStr ''10''), (''name'', JStr ''general-renamed'')]))
        (snd (Channel_parseData RawChannelTypes deconstruct
           (JObj (fmap_of_list [(''id'', JStr ''10''), (''name'', JStr ''general''),
                                (''type'', JNum 0)])) ch)))) = Some ''UNKNOWN''"
  using assms
  by (simp add: Channel_parseData_def Let_def obj_get_def fmlookup_of_list)

theorem Channel_reupsert_resets_type_witness:
  "channel_type (snd (Channel_parseData
        (\<lambda>v. if v = JNum 0 then Some ''GUILD_TEXT'' else None) (\<lambda>v. Inr (JNum 0))
        (JObj (fmap_of_list [(''id'', JStr ''10''), (''name'', JStr ''general''),
                             (''type'', JNum 0)])) new_channel)) = Some ''GUILD_TEXT'' \<and>
   channel_type (snd (Channel_parseData
        (\<lambda>v. if v = JNum 0 then Some ''GUILD_TEXT'' else None) (\<lambda>v. Inr (JNum 0))
        (JObj (fmap_of_list [(''id'', JStr ''10''), (''name'', JStr ''general-renamed'')]))
        (snd (Channel_parseData
           (\<lambda>v. if v = JNum 0 then Some ''GUILD_TEXT'' else None) (\<lambda>v. Inr (JNum 0))
           (JObj (fmap_of_list [(''id'', JStr ''10''), (''name'', JStr ''general''),
                                (''type'', JNum 0)])) new_channel)))) = Some ''UNKNOWN''"
  using Channel_reupsert_resets_type
    [of "\<lambda>v. if v = JNum 0 then Some ''GUILD_TEXT'' else None" "''GUILD_TEXT''"
        "\<lambda>v. Inr (JNum 0)" "JNum 0" new_channel]
  by simp

section \<open>Cross-reference accessors\<close>








lemma truthy_not_nullish: "truthy v \<Longrightarrow> \<not> nullish v"
  by (cases v) auto






lemma Message_guildId_uncached:
  "cache_get (channels c) (Message_channelId m) = None \<Longrightarrow>
   Message_guildId m c =
     (Inr (if nullish (obj_get (data m) ''guild_id'') then JUndefined
           else obj_get (data m) ''guild_id''), c)"
  by (simp add: Message_guildId_def Message_channel_def and_then_def yield_def look_def)




text \<open>
  C4, amended. For a message whose channel id is not in the channel cache, the channel
  accessor returns absent and the guild accessor returns without throwing, both leaving
  the client as it was. The guild accessor returns the guild cached under the message's
  own \<open>guild_id\<close> when that id is truthy and cached, and absent otherwise.
\<close>

theorem uncached_channel_resolves_without_throwing:
  "cache_get (channels c) (Message_channelId m) = None \<Longrightarrow>
   Message_channel m c = (Inr None, c) \<and>
   Message_guild m c =
     (Inr (if truthy (obj_get (data m) ''guild_id'')
           then cache_get (guilds c) (obj_get (data m) ''guild_id'') else None), c)"
  by (auto simp: Message_guild_def Message_guildId_uncached Message_channel_def and_then_def
      yield_def look_def truthy_not_nullish split: option.splits)

theorem uncached_channel_resolves_without_throwing_witness:
  "Message_channel
     \<lparr>data = fmap_of_list [(''id'', JStr ''1''), (''channel_id'', JStr ''10'')]\<rparr>
     \<lparr>users = \<lparr>entries = [], max_size = 0\<rparr>, guilds = \<lparr>entries = [], max_size = 0\<rparr>,
      channels = \<lparr>entries = [], max_size = 0\<rparr>, requests = []\<rparr>
   = (Inr None,
      \<lparr>users = \<lparr>entries = [], max_size = 0\<rparr>, guilds = \<lparr>entries = [], max_size = 0\<rparr>,
       channels = \<lparr>entries = [], max_size = 0\<rparr>, requests = []\<rparr>) \<and>
   Message_guild
     \<lparr>data = fmap_of_list [(''id'', JStr ''1''), (''channel_id'', JStr ''10'')]\<rparr>
     \<lparr>users = \<lparr>entries = [], max_size = 0\<rparr>, guilds = \<lparr>entries = [], max_size = 0\<rparr>,
      channels = \<lparr>entries = [], max_size = 0\<rparr>, requests = []\<rparr>
   = (Inr None,
      \<lparr>users = \<lparr>entries = [], max_size = 0\<rparr>, guilds = \<lparr>entries = [], max_size = 0\<rparr>,
       channels = \<lparr>entries = [], max_size = 0\<rparr>, requests = []\<rparr>)"
  using uncached_channel_resolves_without_throwing
    [of "\<lparr>users = \<lparr>entries = [], max_size = 0\<rparr>, guilds = \<lparr>entries = [], max_size = 0\<rparr>,
         channels = \<lparr>entries = [], max_size = 0\<rparr>, requests = []\<rparr>"
        "\<lparr>data = fmap_of_list [(''id'', JStr ''1''), (''channel_id'', JStr ''10'')]\<rparr>"]
  by (simp add: cache_get_def obj_get_def fmlookup_of_list)

text \<open>
  The claim as stated fails for the guild accessor: the message below names channel "10",
  which is not cached, and guild "20", which is; its guild accessor returns that guild,
  not absent.
\<close>

theorem Message_guild_found_without_channel:
  "cache_get (channels
      \<lparr>users = \<lparr>entries = [], max_size = 0\<rparr>,
       guilds = \<lparr>entries = [(JStr ''20'', \<lparr>guild_id = JStr ''20''\<rparr>)], max_size = 0\<rparr>,
       channels = \<lparr>entries = [], max_size = 0\<rparr>, requests = []\<rparr>)
     (Message_channelId
        \<lparr>data = fmap_of_list [(''id'', JStr ''1''), (''channel_id'', JStr ''10''),
                              (''guild_id'', JStr ''20'')]\<rparr>) = None \<and>
   fst (Message_guild
     \<lparr>data = fmap_of_list [(''id'', JStr ''1''), (''channel_id'', JStr ''10''),
                           (''guild_id'', JStr ''20'')]\<rparr>
     \<lparr>users = \<lparr>entries = [], max_size = 0\<rparr>,
      guilds = \<lparr>entries = [(JStr ''20'', \<lparr>guild_id = JStr ''20''\<rparr>)], max_size = 0\<rparr>,
      channels = \<lparr>entries = [], max_size = 0\<rparr>, requests = []\<rparr>)
   = Inr (Some \<lparr>guild_id = JStr ''20''\<rparr>)"
  by (simp add: Message_guild_def Message_guildId_def Message_channel_def Message_channelId_def
      and_then_def yield_def look_def cache_get_def obj_get_def fmlookup_of_list)

section \<open>Defaults of absent fields\<close>

text \<open>
  C5. A message whose payload has no \<open>content\<close> reads the empty string, one without
  \<open>pinned\<close> or \<open>tts\<close> reads false, one without \<open>components\<close> reads the empty
  sequence. The \<open>embeds\<close> accessor does not default: on a payload without \<open>embeds\<close>
  it throws a TypeError, where the claim has it read the empty sequence.
\<close>

theorem absent_fields_default_but_embeds_throws:
  "(''content'' |\<notin>| fmdom (data m) \<longrightarrow> Message_content m = JStr []) \<and>
   (''pinned'' |\<notin>| fmdom (data m) \<longrightarrow> Message_pinned m = JBool False) \<and>
   (''tts'' |\<notin>| fmdom (data m) \<longrightarrow> Message_tts m = JBool False) \<and>
   (''nonce'' |\<notin>| fmdom (data m) \<longrightarrow> Message_nonce m = JUndefined) \<and>
   (''components'' |\<notin>| fmdom (data m) \<longrightarrow> Message_components messageComponents m = Inr []) \<and>
   (''embeds'' |\<notin>| fmdom (data m) \<longrightarrow> Message_embeds EmbedBuilder m = Inl TypeError)"
  by (auto simp: Message_content_def Message_pinned_def Message_tts_def Message_nonce_def
      Message_components_def Message_embeds_def obj_get_def)

theorem absent_fields_default_but_embeds_throws_witness:
  "Message_content \<lparr>data = fmap_of_list [(''id'', JStr ''1'')]\<rparr> = JStr [] \<and>
   Message_pinned \<lparr>data = fmap_of_list [(''id'', JStr ''1'')]\<rparr> = JBool False \<and>
   Message_tts \<lparr>data = fmap_of_list [(''id'', JStr ''1'')]\<rparr> = JBool False \<and>
   Message_components (\<lambda>v. Inr v) \<lparr>data = fmap_of_list [(''id'', JStr ''1'')]\<rparr> = Inr [] \<and>
   Message_embeds (\<lambda>v. Inr v) \<lparr>data = fmap_of_list [(''id'', JStr ''1'')]\<rparr> = Inl TypeError"
  using absent_fields_default_but_embeds_throws
    [of "\<lparr>data = fmap_of_list [(''id'', JStr ''1'')]\<rparr>" "\<lambda>v. Inr v" "\<lambda>v. Inr v"]
  by simp

section \<open>Rejections of the remote service: what raises\<close>

lemma diagnostics_sublists:
  "sublist e (pre @ diagnostics e m r) \<and> sublist m (pre @ diagnostics e m r) \<and>
   sublist r (pre @ diagnostics e m r)"
proof -
  have 1: "pre @ diagnostics e m r =
      (pre @ [CHR 0x0A] @ ''Endpoint: '') @ e @
      ([CHR 0x0A] @ ''Method: '' @ m @ [CHR 0x0A] @ ''Data: '' @ r)"
    by (simp add: diagnostics_def)
  have 2: "pre @ diagnostics e m r =
      (pre @ [CHR 0x0A] @ ''Endpoint: '' @ e @ [CHR 0x0A] @ ''Method: '') @ m @
      ([CHR 0x0A] @ ''Data: '' @ r)"
    by (simp add: diagnostics_def)
  have 3: "pre @ diagnostics e m r =
      (pre @ [CHR 0x0A] @ ''Endpoint: '' @ e @ [CHR 0x0A] @ ''Method: '' @ m @
       [CHR 0x0A] @ ''Data: '') @ r"
    by (simp add: diagnostics_def)
  have "sublist e (pre @ diagnostics e m r)"
    unfolding 1 by (rule sublist_appendI)
  moreover have "sublist m (pre @ diagnostics e m r)"
    unfolding 2 by (rule sublist_appendI)
  moreover have "sublist r (pre @ diagnostics e m r)"
    unfolding 3 by (rule sublist_append_leftI)
  ultimately show ?thesis by blast
qed

lemma js_toString_throws_TypeError:
  "js_toString num v = Inl e \<Longrightarrow> e = TypeError"
  "js_toStrings num vs = Inl e \<Longrightarrow> e = TypeError"
  by (induction num v and num vs rule: js_toString_js_toStrings.induct)
     (auto split: sum.splits if_splits)

lemma js_toString_not_Error: "js_toString num v \<noteq> Inl (Error msg)"
  using js_toString_throws_TypeError(1) [of num v "Error msg"] by auto

lemma verifyForStatusCode_raises:
  "isl (verifyForStatusCode num e d code m) \<longleftrightarrow> code \<in> {400, 401, 403, 404}"
  by (simp add: verifyForStatusCode_def split: sum.splits)

lemma verifyForStatusCode_form:
  assumes "verifyForStatusCode num e d code m = Inl (Error msg)"
  shows "\<exists>pre rd. js_toString num (if nullish d then JStr ''empty'' else d) = Inr rd \<and>
           msg = pre @ diagnostics e m rd"
proof -
  note ne = js_toString_not_Error [of num "if nullish d then JStr ''empty'' else d" msg]
  consider "code = 400" | "code = 401" | "code = 403" | "code = 404"
    using assms by (auto simp: verifyForStatusCode_def split: if_splits)
  then show ?thesis
  proof cases
    case 1
    with assms ne show ?thesis
      unfolding verifyForStatusCode_def by (auto split: sum.splits)
  next
    case 2
    with assms ne show ?thesis
      unfolding verifyForStatusCode_def by (auto split: sum.splits)
  next
    case 3
    with assms ne show ?thesis
      unfolding verifyForStatusCode_def by (auto split: sum.splits)
  next
    case 4
    with assms ne show ?thesis
      unfolding verifyForStatusCode_def by (auto split: sum.splits)
  qed
qed

lemma verifyForStatusCode_message:
  assumes "verifyForStatusCode num e d code m = Inl (Error msg)"
  shows "sublist e msg \<and> sublist m msg \<and>
     (\<exists>rd. js_toString num (if nullish d then JStr ''empty'' else d) = Inr rd \<and> sublist rd msg)"
proof -
  obtain pre rd where "js_toString num (if nullish d then JStr ''empty'' else d) = Inr rd"
    and "msg = pre @ diagnostics e m rd"
    using verifyForStatusCode_form [OF assms] by blast
  then show ?thesis
    using diagnostics_sublists [of e pre m rd] by blast
qed

lemma verifyForStatusCode_string_body:
  assumes "verifyForStatusCode num e (JStr s) code m = Inl err"
  shows "\<exists>msg. err = Error msg \<and> sublist e msg \<and> sublist m msg \<and> sublist s msg"
proof -
  have "\<exists>msg. err = Error msg"
    using assms by (auto simp: verifyForStatusCode_def split: if_splits)
  then obtain msg where e: "err = Error msg" by blast
  with assms verifyForStatusCode_message [of num e "JStr s" code m msg]
  show ?thesis by simp
qed

lemma verifyForJSONStatusCode_raises:
  "isl (verifyForJSONStatusCode num str (JObj r) e d m) \<longleftrightarrow>
     truthy (obj_get r ''code'') \<and> truthy (obj_get r ''message'')"
  by (simp add: verifyForJSONStatusCode_def split: sum.splits)

lemma verifyForJSONStatusCode_code_zero:
  "fmlookup r ''code'' = Some (JNum 0) \<Longrightarrow>
   verifyForJSONStatusCode num str (JObj r) e d m = Inr ()"
  by (simp add: verifyForJSONStatusCode_def obj_get_def)

lemma verifyForJSONStatusCode_message:
  assumes "verifyForJSONStatusCode num str (JObj r) e d m = Inl (Error msg)"
  shows "sublist e msg \<and> sublist m msg \<and>
     (\<exists>rd. (if typeof_object d then Inr (str d)
            else js_toString num (if nullish d then JStr ''empty'' else d)) = Inr rd \<and>
           sublist rd msg)"
proof -
  have "\<exists>pre rd. (if typeof_object d then Inr (str d)
            else js_toString num (if nullish d then JStr ''empty'' else d)) = Inr rd \<and>
          msg = pre @ diagnostics e m rd"
    using assms js_toString_not_Error [of num _ msg]
    by (auto simp: verifyForJSONStatusCode_def split: if_splits sum.splits
        simp flip: append_assoc)
  then obtain pre rd where "(if typeof_object d then Inr (str d)
            else js_toString num (if nullish d then JStr ''empty'' else d)) = Inr rd"
    and "msg = pre @ diagnostics e m rd"
    by blast
  then show ?thesis
    using diagnostics_sublists [of e pre m rd] by blast
qed

text \<open>
  C6. \<open>verifyForStatusCode\<close> raises exactly when the status code is 400, 401, 403
  or 404. For a JSON response that is an object, \<open>verifyForJSONStatusCode\<close> raises
  exactly when its \<open>code\<close> and its \<open>message\<close> are both truthy, which is not when
  it carries both: a response whose code is the number 0 raises nothing, whatever its
  message, where the claim has an error raised. The message of every \<open>Error\<close> the two
  raise contains the endpoint, the method and the rendering of the request body; a body
  that is a string is rendered as itself.
\<close>

theorem remote_rejection_mapping:
  "(isl (verifyForStatusCode num e d code m) \<longleftrightarrow> code \<in> {400, 401, 403, 404}) \<and>
   (isl (verifyForJSONStatusCode num str (JObj r) e d m) \<longleftrightarrow>
      truthy (obj_get r ''code'') \<and> truthy (obj_get r ''message'')) \<and>
   (fmlookup r ''code'' = Some (JNum 0) \<longrightarrow>
      verifyForJSONStatusCode num str (JObj r) e d m = Inr ()) \<and>
   (verifyForStatusCode num e d code m = Inl (Error msg) \<longrightarrow>
      sublist e msg \<and> sublist m msg \<and>
      (\<exists>rd. js_toString num (if nullish d then JStr ''empty'' else d) = Inr rd \<and>
            sublist rd msg)) \<and>
   (verifyForStatusCode num e (JStr s) code m = Inl err \<longrightarrow>
      (\<exists>msg. err = Error msg \<and> sublist e msg \<and> sublist m msg \<and> sublist s msg)) \<and>
   (verifyForJSONStatusCode num str (JObj r) e d m = Inl (Error msg') \<longrightarrow>
      sublist e msg' \<and> sublist m msg' \<and>
      (\<exists>rd. (if typeof_object d then Inr (str d)
             else js_toString num (if nullish d then JStr ''empty'' else d)) = Inr rd \<and>
            sublist rd msg'))"
  using verifyForStatusCode_raises [of num e d code m]
    verifyForJSONStatusCode_raises [of num str r e d m]
    verifyForJSONStatusCode_code_zero [of r num str e d m]
    verifyForStatusCode_message [of num e d code m msg]
    verifyForStatusCode_string_body [of num e s code m err]
    verifyForJSONStatusCode_message [of num str r e d m msg']
  by blast

theorem remote_rejection_mapping_witness:
  "verifyForJSONStatusCode show_int (\<lambda>v. ''null'')
      (JObj (fmap_of_list [(''code'', JNum 0), (''message'', JStr ''General error'')]))
      ''channels/10'' (JStr []) ''DELETE'' = Inr () \<and>
   verifyForStatusCode show_int ''channels/10'' (JStr []) 500 ''DELETE'' = Inr () \<and>
   verifyForStatusCode show_int ''channels/10'' (JStr ''{}'') 404 ''DELETE'' =
     Inl (Error (''DiscordAPIError: Not Found (404)'' @ [CHR 0x0A] @ ''Endpoint: channels/10'' @
                 [CHR 0x0A] @ ''Method: DELETE'' @ [CHR 0x0A] @ ''Data: {}'')) \<and>
   sublist ''channels/10''
     (''DiscordAPIError: Not Found (404)'' @ [CHR 0x0A] @ ''Endpoint: channels/10'' @
      [CHR 0x0A] @ ''Method: DELETE'' @ [CHR 0x0A] @ ''Data: {}'') \<and>
   sublist ''DELETE''
     (''DiscordAPIError: Not Found (404)'' @ [CHR 0x0A] @ ''Endpoint: channels/10'' @
      [CHR 0x0A] @ ''Method: DELETE'' @ [CHR 0x0A] @ ''Data: {}'') \<and>
   sublist ''{}''
     (''DiscordAPIError: Not Found (404)'' @ [CHR 0x0A] @ ''Endpoint: channels/10'' @
      [CHR 0x0A] @ ''Method: DELETE'' @ [CHR 0x0A] @ ''Data: {}'')"
  using remote_rejection_mapping
    [where num = show_int and str = "\<lambda>v. ''null''"
       and r = "fmap_of_list [(''code'', JNum 0), (''message'', JStr ''General error'')]"
       and e = "''channels/10''" and d = "JStr []" and m = "''DELETE''" and code = 500]
    remote_rejection_mapping
    [where num = show_int and e = "''channels/10''" and s = "''{}''" and m = "''DELETE''"
       and code = 404
       and err = "Error (''DiscordAPIError: Not Found (404)'' @ [CHR 0x0A] @
                 ''Endpoint: channels/10'' @ [CHR 0x0A] @ ''Method: DELETE'' @ [CHR 0x0A] @
                 ''Data: {}'')"]
  by (simp add: verifyForStatusCode_def diagnostics_def fmlookup_of_list)

section \<open>Construction\<close>

lemma Channel_constructor_frame: "snd (Channel_constructor tbl dec d g c) = c"
  by (simp add: Channel_constructor_def split: prod.splits sum.splits)

lemma Channel_constructor_undefined:
  "Channel_constructor tbl dec JUndefined g c = (Inr (new_channel\<lparr>guild := g\<rparr>), c)"
  by (simp add: Channel_constructor_def Channel_parseData_def)

lemma Channel_constructor_without_id:
  "''id'' |\<notin>| fmdom q \<Longrightarrow> dec JUndefined = Inr ts \<Longrightarrow>
   \<exists>ch. Channel_constructor tbl dec (JObj q) g c = (Inr ch, c) \<and> channel_id ch = JUndefined"
  by (simp add: Channel_constructor_def Channel_parseData_def new_channel_def Let_def)

lemma Channel_constructor_without_id_throws:
  "''id'' |\<notin>| fmdom q \<Longrightarrow> dec JUndefined = Inl e \<Longrightarrow>
   Channel_constructor tbl dec (JObj q) g c = (Inl e, c)"
  by (simp add: Channel_constructor_def Channel_parseData_def new_channel_def Let_def)

lemma Message_id_absent: "''id'' |\<notin>| fmdom p \<Longrightarrow> Message_id \<lparr>data = p\<rparr> = JUndefined"
  by (auto simp: Message_id_def obj_get_def)

lemma Message_constructor_result: "Message_constructor p c = (Inr \<lparr>data = p\<rparr>, c)"
  by (simp add: Message_constructor_def yield_def)

text \<open>
  C7, amended. Constructing an entity from a payload without the identity field does not
  fail with MalformedPayload. A Message is built from any payload, stores it as given and
  then reads its id as \<open>undefined\<close>. A Channel built from an \<open>undefined\<close> payload has
  no field set; one built from an object without \<open>id\<close> has an \<open>undefined\<close> id, and
  throws exactly what \<open>Snowflake.deconstruct(undefined)\<close> throws, if it throws.
  No construction changes the client: the caches are as they were.
\<close>

theorem construction_without_id:
  "Message_constructor p c = (Inr \<lparr>data = p\<rparr>, c) \<and>
   (''id'' |\<notin>| fmdom p \<longrightarrow> Message_id \<lparr>data = p\<rparr> = JUndefined) \<and>
   snd (Channel_constructor RawChannelTypes deconstruct d g c) = c \<and>
   Channel_constructor RawChannelTypes deconstruct JUndefined g c =
     (Inr (new_channel\<lparr>guild := g\<rparr>), c) \<and>
   (''id'' |\<notin>| fmdom q \<and> deconstruct JUndefined = Inr ts \<longrightarrow>
      (\<exists>ch. Channel_constructor RawChannelTypes deconstruct (JObj q) g c = (Inr ch, c) \<and>
            channel_id ch = JUndefined)) \<and>
   (''id'' |\<notin>| fmdom q \<and> deconstruct JUndefined = Inl e \<longrightarrow>
      Channel_constructor RawChannelTypes deconstruct (JObj q) g c = (Inl e, c))"
  using Channel_constructor_frame [of RawChannelTypes deconstruct d g c]
    Channel_constructor_undefined [of RawChannelTypes deconstruct g c]
    Channel_constructor_without_id [of q deconstruct ts RawChannelTypes g c]
    Channel_constructor_without_id_throws [of q deconstruct e RawChannelTypes g c]
    Message_id_absent [of p] Message_constructor_result [of p c]
  by blast

theorem construction_without_id_witness:
  "Message_id \<lparr>data = fmap_of_list [(''content'', JStr ''hi'')]\<rparr> = JUndefined \<and>
   (\<exists>ch. Channel_constructor (\<lambda>v. None) (\<lambda>v. Inr (JNum 0))
           (JObj (fmap_of_list [(''name'', JStr ''general'')])) None
           \<lparr>users = \<lparr>entries = [], max_size = 0\<rparr>, guilds = \<lparr>entries = [], max_size = 0\<rparr>,
            channels = \<lparr>entries = [], max_size = 0\<rparr>, requests = []\<rparr>
         = (Inr ch,
            \<lparr>users = \<lparr>entries = [], max_size = 0\<rparr>, guilds = \<lparr>entries = [], max_size = 0\<rparr>,
             channels = \<lparr>entries = [], max_size = 0\<rparr>, requests = []\<rparr>) \<and>
         channel_id ch = JUndefined)"
  using construction_without_id
    [where p = "fmap_of_list [(''content'', JStr ''hi'')]"
       and RawChannelTypes = "\<lambda>v. None" and deconstruct = "\<lambda>v. Inr (JNum 0)" and g = None
       and c = "\<lparr>users = \<lparr>entries = [], max_size = 0\<rparr>, guilds = \<lparr>entries = [], max_size = 0\<rparr>,
            channels = \<lparr>entries = [], max_size = 0\<rparr>, requests = []\<rparr>"
       and q = "fmap_of_list [(''name'', JStr ''general'')]" and ts = "JNum 0"]
  by simp

text \<open>
  The claim as stated fails: a Message is constructed from a payload that has no
  \<open>id\<close>, and a Channel from an \<open>undefined\<close> payload, without any error.
\<close>

theorem Message_constructor_accepts_missing_id:
  "''id'' |\<notin>| fmdom (fmap_of_list [(''content'', JStr ''hi'')]) \<and>
   Message_constructor (fmap_of_list [(''content'', JStr ''hi'')])
     \<lparr>users = \<lparr>entries = [], max_size = 0\<rparr>, guilds = \<lparr>entries = [], max_size = 0\<rparr>,
      channels = \<lparr>entries = [], max_size = 0\<rparr>, requests = []\<rparr>
   = (Inr \<lparr>data = fmap_of_list [(''content'', JStr ''hi'')]\<rparr>,
      \<lparr>users = \<lparr>entries = [], max_size = 0\<rparr>, guilds = \<lparr>entries = [], max_size = 0\<rparr>,
       channels = \<lparr>entries = [], max_size = 0\<rparr>, requests = []\<rparr>) \<and>
   fst (Channel_constructor (\<lambda>v. None) (\<lambda>v. Inr (JNum 0)) JUndefined None
     \<lparr>users = \<lparr>entries = [], max_size = 0\<rparr>, guilds = \<lparr>entries = [], max_size = 0\<rparr>,
      channels = \<lparr>entries = [], max_size = 0\<rparr>, requests = []\<rparr>) = Inr new_channel"
  by (simp add: Message_constructor_def yield_def Channel_constructor_def Channel_parseData_def
      new_channel_def)

section \<open>Identity under updates\<close>

lemma Message_parseData_keeps_id:
  "\<not> truthy d \<or> ''id'' |\<notin>| fmdom (own_props d) \<or> obj_get (own_props d) ''id'' = Message_id m \<Longrightarrow>
   Message_id (Message_parseData d m) = Message_id m"
  by (auto simp: Message_parseData_def Message_id_def obj_get_def)

lemma Message_updates_keep_id:
  "\<forall>d\<in>set ds. \<not> truthy d \<or> ''id'' |\<notin>| fmdom (own_props d) \<or>
       obj_get (own_props d) ''id'' = Message_id m \<Longrightarrow>
   Message_id (Message_updates ds m) = Message_id m"
  unfolding Message_updates_def
proof (induction ds arbitrary: m)
  case Nil
  then show ?case by simp
next
  case (Cons d ds)
  have step: "Message_id (Message_parseData d m) = Message_id m"
    using Cons.prems by (intro Message_parseData_keeps_id) simp
  have "Message_id (fold Message_parseData ds (Message_parseData d m)) =
        Message_id (Message_parseData d m)"
    using Cons.prems step by (intro Cons.IH) simp
  with step show ?case by simp
qed

lemma Channel_parseData_keeps_id:
  "\<not> js_in ''id'' d \<or> js_get d ''id'' = channel_id ch \<Longrightarrow>
   channel_id (snd (Channel_parseData tbl dec d ch)) = channel_id ch"
  by (cases d) (auto simp: Channel_parseData_def Let_def split: sum.splits)

lemma Channel_updates_keep_id:
  "\<forall>d\<in>set ds. \<not> js_in ''id'' d \<or> js_get d ''id'' = channel_id ch \<Longrightarrow>
   channel_id (Channel_updates tbl dec ds ch) = channel_id ch"
  unfolding Channel_updates_def
proof (induction ds arbitrary: ch)
  case Nil
  then show ?case by simp
next
  case (Cons d ds)
  have step: "channel_id (snd (Channel_parseData tbl dec d ch)) = channel_id ch"
    using Cons.prems by (intro Channel_parseData_keeps_id) simp
  have "channel_id (fold (\<lambda>d c. snd (Channel_parseData tbl dec d c)) ds
          (snd (Channel_parseData tbl dec d ch))) =
        channel_id (snd (Channel_parseData tbl dec d ch))"
    using Cons.prems step by (intro Cons.IH) simp
  with step show ?case by simp
qed

text \<open>
  C8, amended. Take an entity and a sequence of updates in which every payload that has
  an \<open>id\<close> repeats the entity's own (the others are \<open>undefined\<close> or have no
  \<open>id\<close>). After each update of the sequence, that is after every prefix of it, the
  entity's identity key is the one it had before the sequence; this holds for a Message
  and for a Channel, also when an update of the Channel throws. A payload that has a
  different \<open>id\<close> overwrites the identity key.
\<close>

theorem identity_stable_under_same_id_updates:
  "((\<forall>d\<in>set ds. \<not> truthy d \<or> ''id'' |\<notin>| fmdom (own_props d) \<or>
        obj_get (own_props d) ''id'' = Message_id m) \<longrightarrow>
      Message_id (Message_updates (take n ds) m) = Message_id m) \<and>
   ((\<forall>d\<in>set ds. \<not> js_in ''id'' d \<or> js_get d ''id'' = channel_id ch) \<longrightarrow>
      channel_id (Channel_updates RawChannelTypes deconstruct (take n ds) ch) = channel_id ch)"
proof (intro conjI impI)
  assume "\<forall>d\<in>set ds. \<not> truthy d \<or> ''id'' |\<notin>| fmdom (own_props d) \<or>
        obj_get (own_props d) ''id'' = Message_id m"
  then have "\<forall>d\<in>set (take n ds). \<not> truthy d \<or> ''id'' |\<notin>| fmdom (own_props d) \<or>
        obj_get (own_props d) ''id'' = Message_id m"
    by (meson in_set_takeD)
  then show "Message_id (Message_updates (take n ds) m) = Message_id m"
    by (rule Message_updates_keep_id)
next
  assume "\<forall>d\<in>set ds. \<not> js_in ''id'' d \<or> js_get d ''id'' = channel_id ch"
  then have "\<forall>d\<in>set (take n ds). \<not> js_in ''id'' d \<or> js_get d ''id'' = channel_id ch"
    by (meson in_set_takeD)
  then show "channel_id (Channel_updates RawChannelTypes deconstruct (take n ds) ch) = channel_id ch"
    by (rule Channel_updates_keep_id)
qed

theorem identity_stable_under_same_id_updates_witness:
  "Message_id (Message_updates
      [JUndefined, JObj (fmap_of_list [(''content'', JStr ''edited'')]),
       JObj (fmap_of_list [(''id'', JStr ''1''), (''pinned'', JBool True)])]
      \<lparr>data = fmap_of_list [(''id'', JStr ''1''), (''content'', JStr ''hello'')]\<rparr>) = JStr ''1'' \<and>
   channel_id (Channel_updates (\<lambda>v. None) (\<lambda>v. Inr (JNum 0))
      [JUndefined, JObj (fmap_of_list [(''name'', JStr ''general-renamed'')]),
       JObj (fmap_of_list [(''id'', JStr ''10''), (''type'', JNum 0)])]
      (new_channel\<lparr>channel_id := JStr ''10''\<rparr>)) = JStr ''10''"
  using identity_stable_under_same_id_updates
    [where ds = "[JUndefined, JObj (fmap_of_list [(''content'', JStr ''edited'')]),
       JObj (fmap_of_list [(''id'', JStr ''1''), (''pinned'', JBool True)])]"
       and m = "\<lparr>data = fmap_of_list [(''id'', JStr ''1''), (''content'', JStr ''hello'')]\<rparr>"
       and n = 3]
    identity_stable_under_same_id_updates
    [where ds = "[JUndefined, JObj (fmap_of_list [(''name'', JStr ''general-renamed'')]),
       JObj (fmap_of_list [(''id'', JStr ''10''), (''type'', JNum 0)])]"
       and ch = "new_channel\<lparr>channel_id := JStr ''10''\<rparr>"
       and RawChannelTypes = "\<lambda>v. None" and deconstruct = "\<lambda>v. Inr (JNum 0)"
       and n = 3]
  by (simp add: Message_id_def obj_get_def fmlookup_of_list new_channel_def)

text \<open>
  The claim as stated fails: one update whose payload has another \<open>id\<close> changes the
  identity key of a Message from "1" to "2" and of a Channel from "10" to "11".
\<close>

theorem update_with_other_id_overwrites_identity:
  "Message_id \<lparr>data = fmap_of_list [(''id'', JStr ''1'')]\<rparr> = JStr ''1'' \<and>
   Message_id (Message_parseData (JObj (fmap_of_list [(''id'', JStr ''2'')]))
      \<lparr>data = fmap_of_list [(''id'', JStr ''1'')]\<rparr>) = JStr ''2'' \<and>
   channel_id (snd (Channel_parseData (\<lambda>v. None) (\<lambda>v. Inr (JNum 0))
      (JObj (fmap_of_list [(''id'', JStr ''10'')])) new_channel)) = JStr ''10'' \<and>
   channel_id (snd (Channel_parseData (\<lambda>v. None) (\<lambda>v. Inr (JNum 0))
      (JObj (fmap_of_list [(''id'', JStr ''11'')]))
      (snd (Channel_parseData (\<lambda>v. None) (\<lambda>v. Inr (JNum 0))
         (JObj (fmap_of_list [(''id'', JStr ''10'')])) new_channel)))) = JStr ''11''"
  by (simp add: Message_id_def Message_parseData_def Channel_parseData_def obj_get_def
      fmlookup_of_list Let_def new_channel_def)

section \<open>Channel.delete\<close>

lemma Channel_delete_frame:
  "channels (snd (Channel_delete tbl dec mk num reason ch c)) = channels c \<and>
   users (snd (Channel_delete tbl dec mk num reason ch c)) = users c \<and>
   guilds (snd (Channel_delete tbl dec mk num reason ch c)) = guilds c"
  by (auto simp: Channel_delete_def and_then_def raise_def Channel_constructor_def
      split: sum.splits prod.splits)

lemma Channel_delete_rendered:
  "js_toString num (channel_id ch) = Inr s \<Longrightarrow>
   snd (Channel_delete tbl dec mk num reason ch c) =
     c\<lparr>requests := requests c @
        [\<lparr>req_endpoint = ''channels/'' @ s, req_method = ''DELETE'', req_body = [],
          req_headers = [(''X-Audit-Log-Reason'', reason)]\<rparr>]\<rparr> \<and>
   fst (Channel_delete tbl dec mk num reason ch c) =
     (case mk \<lparr>req_endpoint = ''channels/'' @ s, req_method = ''DELETE'', req_body = [],
              req_headers = [(''X-Audit-Log-Reason'', reason)]\<rparr> of
        Inl e \<Rightarrow> Inl e
      | Inr d \<Rightarrow> fst (Channel_constructor tbl dec d (guild ch) c))"
  by (auto simp: Channel_delete_def and_then_def Channel_constructor_def
      split: sum.splits prod.splits)

lemma Channel_delete_unrendered:
  "js_toString num (channel_id ch) = Inl e \<Longrightarrow>
   Channel_delete tbl dec mk num reason ch c = (Inl e, c)"
  by (simp add: Channel_delete_def raise_def)

text \<open>
  C9, amended. \<open>Channel.delete\<close> goes through no manager: every cache is as it was,
  so the payload in the response is not ingested. For a channel whose id is a string (or
  any id that converts to a string) it sends one DELETE request for
  \<open>channels/<id>\<close>; when the request is rejected the error is passed on, and
  otherwise what is returned is a Channel newly constructed from the response payload
  and this channel's guild. An id whose conversion to a string throws rejects with that
  error before any request.
\<close>

theorem Channel_delete_returns_detached_channel:
  "channels (snd (Channel_delete RawChannelTypes deconstruct requester_make num reason ch c)) =
     channels c \<and>
   users (snd (Channel_delete RawChannelTypes deconstruct requester_make num reason ch c)) =
     users c \<and>
   guilds (snd (Channel_delete RawChannelTypes deconstruct requester_make num reason ch c)) =
     guilds c \<and>
   (channel_id ch = JStr s \<longrightarrow>
     snd (Channel_delete RawChannelTypes deconstruct requester_make num reason ch c) =
       c\<lparr>requests := requests c @
          [\<lparr>req_endpoint = ''channels/'' @ s, req_method = ''DELETE'', req_body = [],
            req_headers = [(''X-Audit-Log-Reason'', reason)]\<rparr>]\<rparr> \<and>
     fst (Channel_delete RawChannelTypes deconstruct requester_make num reason ch c) =
       (case requester_make
               \<lparr>req_endpoint = ''channels/'' @ s, req_method = ''DELETE'', req_body = [],
                req_headers = [(''X-Audit-Log-Reason'', reason)]\<rparr> of
          Inl e \<Rightarrow> Inl e
        | Inr d \<Rightarrow> fst (Channel_constructor RawChannelTypes deconstruct d (guild ch) c))) \<and>
   (js_toString num (channel_id ch) = Inr s' \<longrightarrow>
     snd (Channel_delete RawChannelTypes deconstruct requester_make num reason ch c) =
       c\<lparr>requests := requests c @
          [\<lparr>req_endpoint = ''channels/'' @ s', req_method = ''DELETE'', req_body = [],
            req_headers = [(''X-Audit-Log-Reason'', reason)]\<rparr>]\<rparr> \<and>
     fst (Channel_delete RawChannelTypes deconstruct requester_make num reason ch c) =
       (case requester_make
               \<lparr>req_endpoint = ''channels/'' @ s', req_method = ''DELETE'', req_body = [],
                req_headers = [(''X-Audit-Log-Reason'', reason)]\<rparr> of
          Inl e \<Rightarrow> Inl e
        | Inr d \<Rightarrow> fst (Channel_constructor RawChannelTypes deconstruct d (guild ch) c))) \<and>
   (js_toString num (channel_id ch) = Inl e' \<longrightarrow>
     Channel_delete RawChannelTypes deconstruct requester_make num reason ch c = (Inl e', c))"
proof -
  have "channel_id ch = JStr s \<Longrightarrow> js_toString num (channel_id ch) = Inr s"
    by simp
  then show ?thesis
    using Channel_delete_frame [of RawChannelTypes deconstruct requester_make num reason ch c]
      Channel_delete_rendered [of num ch s RawChannelTypes deconstruct requester_make reason c]
      Channel_delete_rendered [of num ch s' RawChannelTypes deconstruct requester_make reason c]
      Channel_delete_unrendered [of num ch e' RawChannelTypes deconstruct requester_make reason c]
    by blast
qed

theorem Channel_delete_returns_detached_channel_witness:
  "Channel_delete (\<lambda>v. if v = JNum 0 then Some ''GUILD_TEXT'' else None) (\<lambda>v. Inr (JNum 0))
      (\<lambda>rq. Inl (Error ''rejected'')) show_int (JStr ''cleanup'')
      \<lparr>createdTimestamp = JNum 0, createdAt = Some (Date (JNum 0)), channel_id = JStr ''10'',
       name = JStr ''general'', guild = None, channel_type = Some ''GUILD_TEXT''\<rparr>
      \<lparr>users = \<lparr>entries = [], max_size = 0\<rparr>, guilds = \<lparr>entries = [], max_size = 0\<rparr>,
       channels = \<lparr>entries = [], max_size = 0\<rparr>, requests = []\<rparr>
   = (Inl (Error ''rejected''),
      \<lparr>users = \<lparr>entries = [], max_size = 0\<rparr>, guilds = \<lparr>entries = [], max_size = 0\<rparr>,
       channels = \<lparr>entries = [], max_size = 0\<rparr>,
       requests = [\<lparr>req_endpoint = ''channels/10'', req_method = ''DELETE'', req_body = [],
                    req_headers = [(''X-Audit-Log-Reason'', JStr ''cleanup'')]\<rparr>]\<rparr>)"
  using Channel_delete_returns_detached_channel
    [where RawChannelTypes = "\<lambda>v. if v = JNum 0 then Some ''GUILD_TEXT'' else None"
       and deconstruct = "\<lambda>v. Inr (JNum 0)" and requester_make = "\<lambda>rq. Inl (Error ''rejected'')"
       and num = show_int and reason = "JStr ''cleanup''" and s = "''10''"
       and ch = "\<lparr>createdTimestamp = JNum 0, createdAt = Some (Date (JNum 0)),
                  channel_id = JStr ''10'', name = JStr ''general'', guild = None,
                  channel_type = Some ''GUILD_TEXT''\<rparr>"
       and c = "\<lparr>users = \<lparr>entries = [], max_size = 0\<rparr>, guilds = \<lparr>entries = [], max_size = 0\<rparr>,
                 channels = \<lparr>entries = [], max_size = 0\<rparr>, requests = []\<rparr>"]
  by (simp add: prod_eq_iff)

text \<open>
  The claim as stated fails: channel "10" is cached with the name "general" and the
  response to the delete carries the name "general-deleted". The returned channel has
  the new name, and the channel cached under "10" still has the old one: what is returned
  is not the cached representative, and the payload did not reach the cache.
\<close>

theorem Channel_delete_leaves_cache_stale:
  "map_option name (cache_get (channels (snd
     (Channel_delete (\<lambda>v. if v = JNum 0 then Some ''GUILD_TEXT'' else None) (\<lambda>v. Inr (JNum 0))
        (\<lambda>rq. Inr (JObj (fmap_of_list [(''id'', JStr ''10''), (''name'', JStr ''general-deleted''),
                                        (''type'', JNum 0)])))
        show_int JUndefined
        \<lparr>createdTimestamp = JNum 0, createdAt = Some (Date (JNum 0)), channel_id = JStr ''10'',
         name = JStr ''general'', guild = None, channel_type = Some ''GUILD_TEXT''\<rparr>
        \<lparr>users = \<lparr>entries = [], max_size = 0\<rparr>, guilds = \<lparr>entries = [], max_size = 0\<rparr>,
         channels = \<lparr>entries = [(JStr ''10'',
            \<lparr>createdTimestamp = JNum 0, createdAt = Some (Date (JNum 0)), channel_id = JStr ''10'',
             name = JStr ''general'', guild = None, channel_type = Some ''GUILD_TEXT''\<rparr>)],
            max_size = 0\<rparr>,
         requests = []\<rparr>))) (JStr ''10'')) = Some (JStr ''general'') \<and>
   map_sum (\<lambda>e. e) name (fst
     (Channel_delete (\<lambda>v. if v = JNum 0 then Some ''GUILD_TEXT'' else None) (\<lambda>v. Inr (JNum 0))
        (\<lambda>rq. Inr (JObj (fmap_of_list [(''id'', JStr ''10''), (''name'', JStr ''general-deleted''),
                                        (''type'', JNum 0)])))
        show_int JUndefined
        \<lparr>createdTimestamp = JNum 0, createdAt = Some (Date (JNum 0)), channel_id = JStr ''10'',
         name = JStr ''general'', guild = None, channel_type = Some ''GUILD_TEXT''\<rparr>
        \<lparr>users = \<lparr>entries = [], max_size = 0\<rparr>, guilds = \<lparr>entries = [], max_size = 0\<rparr>,
         channels = \<lparr>entries = [(JStr ''10'',
            \<lparr>createdTimestamp = JNum 0, createdAt = Some (Date (JNum 0)), channel_id = JStr ''10'',
             name = JStr ''general'', guild = None, channel_type = Some ''GUILD_TEXT''\<rparr>)],
            max_size = 0\<rparr>,
         requests = []\<rparr>)) = Inr (JStr ''general-deleted'')"
  by (simp add: Channel_delete_def and_then_def Channel_constructor_def Channel_parseData_def
      new_channel_def Let_def obj_get_def fmlookup_of_list cache_get_def)

section \<open>Updates with an undefined payload\<close>

text \<open>
  C10. An update with an \<open>undefined\<close> payload is a no-op without failure:
  \<open>Message.parseData\<close> returns with the message unchanged, and
  \<open>Channel.parseData\<close> returns \<open>null\<close> with every field of the channel unchanged.
\<close>

theorem parseData_undefined_is_noop:
  "Message_parseData JUndefined m = m \<and>
   Channel_parseData RawChannelTypes deconstruct JUndefined ch = (Inr JNull, ch)"
  by (simp add: Message_parseData_def Channel_parseData_def)

end
